theory Spec2Isabelle
  imports Complex_Main "HOL-Library.AList"
begin

section \<open>The SeisHub client of ObsPy (obspy/seishub/client.py)\<close>

text \<open>
  The development embeds the request encoding of \<^verbatim>\<open>Client._fetch\<close>, the waveform and
  preview operations of \<^verbatim>\<open>_WaveformMapperClient\<close> and the poles-and-zeros extraction
  \<^verbatim>\<open>_StationMapperClient.getPAZ\<close>.  The collaborators the module imports (the HTTP opener,
  the XML parser with its type inference and its XPath parser, the unpickler,
  \<^verbatim>\<open>UTCDateTime\<close>, \<^verbatim>\<open>Stream.trim\<close>, the table \<^verbatim>\<open>BAND_CODE\<close>) are fields of an environment
  record, so every statement holds for whatever they compute.  Time stamps and
  sampling rates are real numbers: the arithmetic of the model is exact.
\<close>

subsection \<open>Exceptions and Python values\<close>

datatype error =
    IndexError
  | KeyError
  | AttributeError
  | TypeError
  | ZeroDivisionError
  | NoWaveformData  \<comment> \<open>\<^verbatim>\<open>Exception("No waveform data available")\<close>\<close>
  | ExternalError string  \<comment> \<open>raised inside a collaborator (transport, parser, unpickler)\<close>

fun bind_err :: "error + 'a \<Rightarrow> ('a \<Rightarrow> error + 'b) \<Rightarrow> error + 'b" where
  "bind_err (Inl e) f = Inl e"
| "bind_err (Inr x) f = f x"

text \<open>The values a keyword argument of a request can hold.\<close>

datatype pyval =
    PNone
  | PBool bool
  | PInt int
  | PFloat real
  | PStr string
  | PTuple "pyval list"
  | PList "pyval list"
  | PTime real  \<comment> \<open>a \<^verbatim>\<open>UTCDateTime\<close> object, by its time stamp\<close>

text \<open>Truth value testing (\<^verbatim>\<open>if not value\<close>); a \<^verbatim>\<open>datetime\<close> object is always true.\<close>

fun truthy :: "pyval \<Rightarrow> bool" where
  "truthy PNone = False"
| "truthy (PBool b) = b"
| "truthy (PInt i) = (i \<noteq> 0)"
| "truthy (PFloat r) = (r \<noteq> 0)"
| "truthy (PStr s) = (s \<noteq> [])"
| "truthy (PTuple xs) = (xs \<noteq> [])"
| "truthy (PList xs) = (xs \<noteq> [])"
| "truthy (PTime t) = True"

text \<open>
  \<^verbatim>\<open>str(value)\<close>: a string is its own text; the text of any other value is given
  by the first argument (Python's default conversion of numbers, sequences, dates).
\<close>

fun str_py :: "(pyval \<Rightarrow> string) \<Rightarrow> pyval \<Rightarrow> string" where
  "str_py ext (PStr s) = s"
| "str_py ext v = ext v"

text \<open>
  A dictionary is an association list with distinct keys; \<^const>\<open>AList.update\<close> is the
  item assignment \<^verbatim>\<open>d[k] = v\<close>.  The order of the list is the iteration order of
  the dictionary, which Python leaves unspecified: statements below are about all
  orders.
\<close>

type_synonym ('k, 'v) dict = "('k \<times> 'v) list"

subsection \<open>\<^verbatim>\<open>Client._fetch\<close>: the query encoder\<close>

text \<open>\<^verbatim>\<open>isinstance(value, tuple) and len(value) == 2\<close>, or the same for a list.\<close>

fun two_sequence :: "pyval \<Rightarrow> (pyval \<times> pyval) option" where
  "two_sequence (PTuple [lo, hi]) = Some (lo, hi)"
| "two_sequence (PList [lo, hi]) = Some (lo, hi)"
| "two_sequence v = None"

text \<open>The loop of lines 86 to 96 over \<^verbatim>\<open>kwargs.iteritems()\<close>, filling \<^verbatim>\<open>params\<close>.\<close>

fun fetch_params ::
  "(pyval \<Rightarrow> string) \<Rightarrow> (string, pyval) dict \<Rightarrow> (string, string) dict \<Rightarrow> (string, string) dict"
where
  "fetch_params ext [] params = params"
| "fetch_params ext ((key, value) # kwargs) params =
     (if \<not> truthy value then fetch_params ext kwargs params
      else case two_sequence value of
        Some (lo, hi) \<Rightarrow>
          fetch_params ext kwargs
            (AList.update (''max_'' @ key) (str_py ext hi)
              (AList.update (''min_'' @ key) (str_py ext lo) params))
      | None \<Rightarrow> fetch_params ext kwargs (AList.update key (str_py ext value) params))"

text \<open>\<^verbatim>\<open>'&'.join(l)\<close>.\<close>

fun join :: "string \<Rightarrow> string list \<Rightarrow> string" where
  "join sep [] = []"
| "join sep [x] = x"
| "join sep (x # y # ys) = x @ sep @ join sep (y # ys)"

text \<open>\<^verbatim>\<open>urllib.urlencode(params)\<close>; the first argument is \<^verbatim>\<open>urllib.quote_plus\<close>.\<close>

definition urlencode :: "(string \<Rightarrow> string) \<Rightarrow> (string, string) dict \<Rightarrow> string" where
  "urlencode quote params = join ''&'' (map (\<lambda>(k, v). quote k @ ''='' @ quote v) params)"

text \<open>
  The parameters of one keyword argument in the words of the specification: none
  for a false value, the two bounds for a pair, one parameter otherwise.
\<close>

definition spec_pairs :: "(pyval \<Rightarrow> string) \<Rightarrow> string \<times> pyval \<Rightarrow> (string \<times> string) list" where
  "spec_pairs ext kv =
     (if \<not> truthy (snd kv) then []
      else case two_sequence (snd kv) of
        Some (lo, hi) \<Rightarrow> [(''min_'' @ fst kv, str_py ext lo), (''max_'' @ fst kv, str_py ext hi)]
      | None \<Rightarrow> [(fst kv, str_py ext (snd kv))])"

definition spec_params :: "(pyval \<Rightarrow> string) \<Rightarrow> (string, pyval) dict \<Rightarrow> (string, string) dict" where
  "spec_params ext kwargs = concat (map (spec_pairs ext) kwargs)"

text \<open>
  No key of the dictionary is the \<^verbatim>\<open>min_\<close> or \<^verbatim>\<open>max_\<close> name of a key that holds a
  pair.
\<close>

definition no_bound_clash :: "(string, pyval) dict \<Rightarrow> bool" where
  "no_bound_clash kwargs =
     list_all (\<lambda>kv. two_sequence (snd kv) = None \<or>
        (''min_'' @ fst kv \<notin> fst ` set kwargs \<and> ''max_'' @ fst kv \<notin> fst ` set kwargs)) kwargs"

subsection \<open>The environment: what the module imports\<close>

text \<open>An XML element as \<^verbatim>\<open>lxml\<close> holds it: tag, leading text, children, trailing text.\<close>

datatype node = Node (tag: string) (elem_text: string) (children: "node list") (elem_tail: string)

text \<open>
  How \<^verbatim>\<open>objectify\<close> types an element: as a number (integer, float or boolean, with its
  value), as a string element, or as neither (an element with children, a nil
  element).
\<close>

datatype pytype = NumberElement real | StringElement | OtherElement

record 'tr env =
  base_url :: string
  urlopen :: "string \<Rightarrow> error + string"  \<comment> \<open>\<^verbatim>\<open>urllib2.urlopen(addr).read()\<close>\<close>
  str_ext :: "pyval \<Rightarrow> string"  \<comment> \<open>\<^verbatim>\<open>str\<close> of a value that is not a string\<close>
  quote_plus :: "string \<Rightarrow> string"  \<comment> \<open>\<^verbatim>\<open>urllib.quote_plus\<close>\<close>
  fromstring :: "string \<Rightarrow> error + node"  \<comment> \<open>\<^verbatim>\<open>objectify.fromstring\<close>\<close>
  pytype :: "node \<Rightarrow> pytype"  \<comment> \<open>the type inference of \<^verbatim>\<open>objectify\<close>\<close>
  str_complex :: "complex \<Rightarrow> string"  \<comment> \<open>the text of a complex number\<close>
  xpath_ext :: "node \<Rightarrow> string \<Rightarrow> error + node list"
    \<comment> \<open>\<^verbatim>\<open>node.xpath(text)\<close> for the expressions not interpreted below\<close>
  loads :: "string \<Rightarrow> error + 'tr list"  \<comment> \<open>\<^verbatim>\<open>pickle.loads\<close>: a stream is a list of traces\<close>
  trim :: "'tr list \<Rightarrow> real \<Rightarrow> real \<Rightarrow> 'tr list"  \<comment> \<open>\<^verbatim>\<open>Stream.trim\<close>\<close>
  BAND_CODE :: "char \<Rightarrow> real option"  \<comment> \<open>\<^verbatim>\<open>obspy.core.util.BAND_CODE\<close>\<close>
  UTCDateTime :: "string \<Rightarrow> error + real"  \<comment> \<open>\<^verbatim>\<open>UTCDateTime(string)\<close>\<close>

text \<open>
  An operation returns the addresses it requested, in order, and its result or the
  exception it raised.
\<close>

type_synonym 'a io = "string list \<times> (error + 'a)"

definition lift_io :: "error + 'a \<Rightarrow> 'a io" where
  "lift_io r = ([], r)"

definition bind_io :: "'a io \<Rightarrow> ('a \<Rightarrow> 'b io) \<Rightarrow> 'b io" where
  "bind_io m f =
     (case snd m of
        Inl e \<Rightarrow> (fst m, Inl e)
      | Inr x \<Rightarrow> (fst m @ fst (f x), snd (f x)))"

definition requests :: "'a io \<Rightarrow> string list" where
  "requests m = fst m"

definition outcome :: "'a io \<Rightarrow> error + 'a" where
  "outcome m = snd m"

text \<open>Lines 84 to 106; both branches on \<^verbatim>\<open>sys.hexversion\<close> open the same address.\<close>

definition remoteaddr :: "'tr env \<Rightarrow> string \<Rightarrow> (string, pyval) dict \<Rightarrow> string" where
  "remoteaddr env url kwargs =
     base_url env @ url @ ''?'' @ urlencode (quote_plus env) (fetch_params (str_ext env) kwargs [])"

definition fetch :: "'tr env \<Rightarrow> string \<Rightarrow> (string, pyval) dict \<Rightarrow> string io" where
  "fetch env url kwargs = ([remoteaddr env url kwargs], urlopen env (remoteaddr env url kwargs))"

definition objectify_fetch :: "'tr env \<Rightarrow> string \<Rightarrow> (string, pyval) dict \<Rightarrow> node io" where
  "objectify_fetch env url kwargs =
     bind_io (fetch env url kwargs) (\<lambda>doc. lift_io (fromstring env doc))"

text \<open>
  \<^verbatim>\<open>for i in range(len(args)): kwargs[map[i]] = args[i]\<close>: positional arguments
  take the names of a fixed table; one argument too many is an \<^verbatim>\<open>IndexError\<close>.
\<close>

fun positional ::
  "string list \<Rightarrow> pyval list \<Rightarrow> (string, pyval) dict \<Rightarrow> error + (string, pyval) dict"
where
  "positional names [] kwargs = Inr kwargs"
| "positional [] (a # args) kwargs = Inl IndexError"
| "positional (n # names) (a # args) kwargs = positional names args (AList.update n a kwargs)"

subsection \<open>\<^verbatim>\<open>_WaveformMapperClient\<close>\<close>

text \<open>
  Lines 193 to 194 and 197 to 198: a string becomes a \<^verbatim>\<open>UTCDateTime\<close>.  The two
  constructors are the two documented types of \<^verbatim>\<open>start_datetime\<close> and
  \<^verbatim>\<open>end_datetime\<close>.
\<close>

datatype timearg = TString string | TTime real

fun timearg_val :: "timearg \<Rightarrow> pyval" where
  "timearg_val (TString s) = PStr s"
| "timearg_val (TTime t) = PTime t"

fun to_time :: "'tr env \<Rightarrow> timearg \<Rightarrow> error + real" where
  "to_time env (TString s) = UTCDateTime env s"
| "to_time env (TTime t) = Inr t"

text \<open>\<^verbatim>\<open>2.0 / BAND_CODE[band_code]\<close>.\<close>

definition padding :: "'tr env \<Rightarrow> char \<Rightarrow> error + real" where
  "padding env band_code =
     (case BAND_CODE env band_code of
        None \<Rightarrow> Inl KeyError
      | Some rate \<Rightarrow> if rate = 0 then Inl ZeroDivisionError else Inr (2 / rate))"

text \<open>
  Lines 183 to 199: the named arguments are stored in \<^verbatim>\<open>kwargs\<close>, then the two
  times are replaced by the padded ones.  The result is the dictionary handed to
  \<^verbatim>\<open>_fetch\<close> with the converted, unpadded \<^verbatim>\<open>start\<close> and \<^verbatim>\<open>end\<close>.
\<close>

definition getWaveform_kwargs ::
  "'tr env \<Rightarrow> string \<Rightarrow> string \<Rightarrow> string \<Rightarrow> string \<Rightarrow> timearg \<Rightarrow> timearg \<Rightarrow> bool \<Rightarrow>
   (string, pyval) dict \<Rightarrow> error + ((string, pyval) dict \<times> real \<times> real)"
where
  "getWaveform_kwargs env network_id station_id location_id channel_id start_datetime
      end_datetime apply_filter kwargs =
     (let kwargs =
        AList.update ''apply_filter'' (PBool apply_filter)
          (AList.update ''end_datetime'' (timearg_val end_datetime)
            (AList.update ''start_datetime'' (timearg_val start_datetime)
              (AList.update ''channel_id'' (PStr channel_id)
                (AList.update ''location_id'' (PStr location_id)
                  (AList.update ''station_id'' (PStr station_id)
                    (AList.update ''network_id'' (PStr network_id) kwargs))))))
      in case channel_id of
        [] \<Rightarrow> Inl IndexError
      | band_code # _ \<Rightarrow>
          bind_err (to_time env start_datetime) (\<lambda>start.
          bind_err (padding env band_code) (\<lambda>pad_start.
          bind_err (to_time env end_datetime) (\<lambda>end.
          bind_err (padding env band_code) (\<lambda>pad_end.
            Inr (AList.update ''end_datetime'' (PTime (end + pad_end))
                   (AList.update ''start_datetime'' (PTime (start - pad_start)) kwargs),
                 start, end))))))"

text \<open>Lines 201 to 211.\<close>

definition getWaveform ::
  "'tr env \<Rightarrow> string \<Rightarrow> string \<Rightarrow> string \<Rightarrow> string \<Rightarrow> timearg \<Rightarrow> timearg \<Rightarrow> bool \<Rightarrow>
   (string, pyval) dict \<Rightarrow> 'tr list io"
where
  "getWaveform env network_id station_id location_id channel_id start_datetime end_datetime
      apply_filter kwargs =
     bind_io
       (lift_io (getWaveform_kwargs env network_id station_id location_id channel_id
          start_datetime end_datetime apply_filter kwargs))
       (\<lambda>(kwargs, start, end).
          bind_io (fetch env ''/seismology/waveform/getWaveform'' kwargs) (\<lambda>data.
            if data = [] then lift_io (Inl NoWaveformData)
            else bind_io (lift_io (loads env data)) (\<lambda>stream.
              if length stream = 0 then lift_io (Inl NoWaveformData)
              else lift_io (Inr (trim env stream start end)))))"

text \<open>Lines 227 to 237.\<close>

definition getPreview :: "'tr env \<Rightarrow> pyval list \<Rightarrow> (string, pyval) dict \<Rightarrow> 'tr list io" where
  "getPreview env args kwargs =
     bind_io
       (lift_io (positional
          [''network_id'', ''station_id'', ''location_id'', ''channel_id'',
           ''start_datetime'', ''end_datetime'', ''trace_ids''] args kwargs))
       (\<lambda>kwargs.
          bind_io (fetch env ''/seismology/waveform/getPreview'' kwargs) (\<lambda>data.
            if data = [] then lift_io (Inl NoWaveformData)
            else lift_io (loads env data)))"

text \<open>\<^verbatim>\<open>','.join(ids)\<close>: every item has to be a string.\<close>

fun str_items :: "pyval list \<Rightarrow> error + string list" where
  "str_items [] = Inr []"
| "str_items (PStr s # vs) = bind_err (str_items vs) (\<lambda>ss. Inr (s # ss))"
| "str_items (v # vs) = Inl TypeError"

text \<open>Lines 254 to 256.\<close>

definition join_trace_ids :: "(string, pyval) dict \<Rightarrow> error + (string, pyval) dict" where
  "join_trace_ids kwargs =
     (case map_of kwargs ''trace_ids'' of
        Some (PList ids) \<Rightarrow>
          bind_err (str_items ids) (\<lambda>ss. Inr (AList.update ''trace_ids'' (PStr (join '','' ss)) kwargs))
      | _ \<Rightarrow> Inr kwargs)"

text \<open>Lines 250 to 263.\<close>

definition getPreviewByIds :: "'tr env \<Rightarrow> pyval list \<Rightarrow> (string, pyval) dict \<Rightarrow> 'tr list io" where
  "getPreviewByIds env args kwargs =
     bind_io
       (lift_io (bind_err (positional [''trace_ids'', ''start_datetime'', ''end_datetime''] args kwargs)
          join_trace_ids))
       (\<lambda>kwargs.
          bind_io (fetch env ''/seismology/waveform/getPreview'' kwargs) (\<lambda>data.
            if data = [] then lift_io (Inl NoWaveformData)
            else lift_io (loads env data)))"

subsection \<open>Reading an objectified document\<close>

text \<open>The XPath string value of an element: all the text below it, in document order.\<close>

fun string_value :: "node \<Rightarrow> string" where
  "string_value (Node t s cs ta) = s @ concat (map (\<lambda>c. string_value c @ elem_tail c) cs)"

text \<open>
  \<^verbatim>\<open>parent.name\<close> is the first child with that tag and stands for all of them:
  \<^verbatim>\<open>parent.name[i]\<close> indexes the children of that tag (a negative index counts from the
  end), \<^verbatim>\<open>parent.name[:]\<close> lists them.  A tag with no child is an \<^verbatim>\<open>AttributeError\<close>.
\<close>

definition named :: "node \<Rightarrow> string \<Rightarrow> node list" where
  "named parent name = filter (\<lambda>c. tag c = name) (children parent)"

definition getattr :: "node \<Rightarrow> string \<Rightarrow> error + node" where
  "getattr parent name =
     (case named parent name of [] \<Rightarrow> Inl AttributeError | c # _ \<Rightarrow> Inr c)"

definition getattr_slice :: "node \<Rightarrow> string \<Rightarrow> error + node list" where
  "getattr_slice parent name =
     (case named parent name of [] \<Rightarrow> Inl AttributeError | c # cs \<Rightarrow> Inr (c # cs))"

text \<open>\<^verbatim>\<open>xs[i]\<close> on a list: an index below zero counts from the end.\<close>

definition py_index :: "'a list \<Rightarrow> int \<Rightarrow> error + 'a" where
  "py_index xs i =
     (if 0 \<le> i \<and> i < int (length xs) then Inr (xs ! nat i)
      else if i < 0 \<and> - int (length xs) \<le> i then Inr (xs ! nat (int (length xs) + i))
      else Inl IndexError)"

definition getattr_item :: "node \<Rightarrow> string \<Rightarrow> int \<Rightarrow> error + node" where
  "getattr_item parent name i = bind_err (getattr_slice parent name) (\<lambda>cs. py_index cs i)"

text \<open>
  \<^verbatim>\<open>node.__dict__\<close>: the children by tag, the first child of every tag only.
\<close>

fun elem_dict :: "node list \<Rightarrow> (string, node) dict \<Rightarrow> (string, node) dict" where
  "elem_dict [] d = d"
| "elem_dict (c # cs) d =
     elem_dict cs (if map_of d (tag c) = None then d @ [(tag c, c)] else d)"

text \<open>\<^verbatim>\<open>d[key]\<close>.\<close>

definition getitem :: "('k, 'v) dict \<Rightarrow> 'k \<Rightarrow> error + 'v" where
  "getitem d key = (case map_of d key of None \<Rightarrow> Inl KeyError | Some v \<Rightarrow> Inr v)"

subsection \<open>The three XPath queries of \<^verbatim>\<open>getPAZ\<close>\<close>

text \<open>
  The predicate \<^verbatim>\<open>[name='literal']\<close> on an element: some child of that tag has the
  literal as its string value.
\<close>

definition field_eq :: "string \<Rightarrow> string \<Rightarrow> node \<Rightarrow> bool" where
  "field_eq name literal n = list_ex (\<lambda>c. tag c = name \<and> string_value c = literal) (children n)"

text \<open>
  \<^verbatim>\<open>channel_identifier[channel_identifier='C' and location_identifier='L']\<close>, a step
  from the station control header to its children.
\<close>

definition channel_match :: "string \<Rightarrow> string \<Rightarrow> node \<Rightarrow> bool" where
  "channel_match channel_id location_id n \<longleftrightarrow>
     tag n = ''channel_identifier'' \<and> field_eq ''channel_identifier'' channel_id n \<and>
     field_eq ''location_identifier'' location_id n"

text \<open>
  \<^verbatim>\<open>P/following-sibling::Q\<close> over the children \<open>cs\<close> of the context element: the
  children that satisfy \<open>Q\<close> and come after some child that satisfies \<open>P\<close>, each once,
  in document order.
\<close>

definition following_sibling :: "(node \<Rightarrow> bool) \<Rightarrow> (node \<Rightarrow> bool) \<Rightarrow> node list \<Rightarrow> node list" where
  "following_sibling P Q cs =
     map (\<lambda>j. cs ! j)
       (filter (\<lambda>j. list_ex (\<lambda>i. P (cs ! i)) [0..<j] \<and> Q (cs ! j)) [0..<length cs])"

text \<open>
  The texts of the expressions, as lines 363 to 365, 369 to 372 and 376 to 379 paste
  them together: each filter goes between two apostrophes as it is.
\<close>

definition quoted :: "string \<Rightarrow> string" where
  "quoted s = [CHR 0x27] @ s @ [CHR 0x27]"

definition xpath_channel_text :: "string \<Rightarrow> string \<Rightarrow> string" where
  "xpath_channel_text channel_id location_id =
     ''channel_identifier[channel_identifier='' @ quoted channel_id @
     '' and location_identifier='' @ quoted location_id @ '']''"

definition xpath_paz_text :: "string \<Rightarrow> string \<Rightarrow> string" where
  "xpath_paz_text channel_id location_id =
     xpath_channel_text channel_id location_id @ ''/following-sibling::response_poles_and_zeros''"

definition xpath_gain_text :: "string \<Rightarrow> string \<Rightarrow> string \<Rightarrow> string" where
  "xpath_gain_text channel_id location_id stage =
     xpath_channel_text channel_id location_id @
     ''/following-sibling::channel_sensitivity_gain[stage_sequence_number='' @ quoted stage @ '']''"

text \<open>
  \<^verbatim>\<open>base_node.xpath(text)\<close>.  A string without an apostrophe between two apostrophes
  is an XPath literal (\<open>xpath_literal\<close>), and then the text is the expression read
  above.  A filter that holds an apostrophe ends the literal early: what the text
  then means, or whether it is an expression at all, is left to the parser of
  \<^verbatim>\<open>lxml\<close> (\<open>xpath_ext\<close>), which gets the text as it was pasted.
\<close>

definition xpath_literal :: "string \<Rightarrow> bool" where
  "xpath_literal s \<longleftrightarrow> CHR 0x27 \<notin> set s"

definition xpath_paz :: "'tr env \<Rightarrow> node \<Rightarrow> string \<Rightarrow> string \<Rightarrow> error + node list" where
  "xpath_paz env base_node channel_id location_id =
     (if xpath_literal channel_id \<and> xpath_literal location_id then
        Inr (following_sibling (channel_match channel_id location_id)
          (\<lambda>n. tag n = ''response_poles_and_zeros'') (children base_node))
      else xpath_ext env base_node (xpath_paz_text channel_id location_id))"

definition xpath_gain :: "'tr env \<Rightarrow> node \<Rightarrow> string \<Rightarrow> string \<Rightarrow> string \<Rightarrow> error + node list" where
  "xpath_gain env base_node channel_id location_id stage =
     (if xpath_literal channel_id \<and> xpath_literal location_id \<and> xpath_literal stage then
        Inr (following_sibling (channel_match channel_id location_id)
          (\<lambda>n. tag n = ''channel_sensitivity_gain'' \<and> field_eq ''stage_sequence_number'' stage n)
          (children base_node))
      else xpath_ext env base_node (xpath_gain_text channel_id location_id stage))"

text \<open>\<^verbatim>\<open>result[0]\<close> on the list an XPath query returns.\<close>

fun first :: "'a list \<Rightarrow> error + 'a" where
  "first (x # xs) = Inr x"
| "first [] = Inl IndexError"

subsection \<open>\<^verbatim>\<open>_StationMapperClient\<close>\<close>

text \<open>Lines 308 to 313.\<close>

definition getList :: "'tr env \<Rightarrow> pyval list \<Rightarrow> (string, pyval) dict \<Rightarrow> (string, node) dict list io" where
  "getList env args kwargs =
     bind_io (lift_io (positional [''network_id'', ''station_id''] args kwargs)) (\<lambda>kwargs.
       bind_io (objectify_fetch env ''/seismology/station/getList'' kwargs) (\<lambda>root.
         lift_io (Inr (map (\<lambda>node. elem_dict (children node) []) (children root)))))"

text \<open>
  \<^verbatim>\<open>string + element\<close>: a string element appends its text; an element of another
  type is no operand of the concatenation.
\<close>

definition str_add_elem :: "'tr env \<Rightarrow> string \<Rightarrow> node \<Rightarrow> error + string" where
  "str_add_elem env s element =
     (case pytype env element of
        StringElement \<Rightarrow> Inr (s @ elem_text element)
      | NumberElement x \<Rightarrow> Inl TypeError
      | OtherElement \<Rightarrow> Inl TypeError)"

text \<open>
  Lines 289 to 291, with the class attributes of the station mapper; the resource
  name is the element \<^verbatim>\<open>getPAZ\<close> passes.
\<close>

definition getXMLResource :: "'tr env \<Rightarrow> node \<Rightarrow> (string, pyval) dict \<Rightarrow> node io" where
  "getXMLResource env resource_name kwargs =
     bind_io
       (lift_io (str_add_elem env (''/xml/'' @ ''seismology'' @ ''/'' @ ''station'' @ ''/'') resource_name))
       (\<lambda>url. objectify_fetch env url kwargs)"

text \<open>Lines 348 to 352: the loop over the two wildcard characters.\<close>

fun wildcards :: "char list \<Rightarrow> string \<Rightarrow> string \<Rightarrow> string \<times> string" where
  "wildcards [] channel_id location_id = (channel_id, location_id)"
| "wildcards (t # ts) channel_id location_id =
     wildcards ts (if t \<in> set channel_id then [] else channel_id)
       (if t \<in> set location_id then [] else location_id)"

definition no_wildcards :: "string \<Rightarrow> string \<Rightarrow> string \<times> string" where
  "no_wildcards channel_id location_id = wildcards [CHR ''*'', CHR ''?''] channel_id location_id"

text \<open>
  Lines 359 to 385: the poles-and-zeros node, the sensitivity node and the
  seismometer-gain node, for filters already freed of wildcards.
\<close>

definition select_nodes ::
  "'tr env \<Rightarrow> node \<Rightarrow> string \<Rightarrow> string \<Rightarrow> error + (node \<times> node \<times> node)"
where
  "select_nodes env base_node channel_id location_id =
     (if channel_id \<noteq> [] \<or> location_id \<noteq> [] then
        bind_err (bind_err (xpath_paz env base_node channel_id location_id) first) (\<lambda>paz_node.
        bind_err (bind_err (xpath_gain env base_node channel_id location_id ''0'') first)
          (\<lambda>sensitivity_node.
        bind_err (bind_err (xpath_gain env base_node channel_id location_id ''1'') first)
          (\<lambda>seismometer_gain_node.
          Inr (paz_node, sensitivity_node, seismometer_gain_node))))
      else
        bind_err (getattr_item base_node ''response_poles_and_zeros'' 0) (\<lambda>paz_node.
        bind_err (getattr_item base_node ''channel_sensitivity_gain'' (- 1)) (\<lambda>sensitivity_node.
        bind_err (getattr_item base_node ''channel_sensitivity_gain'' 0) (\<lambda>seismometer_gain_node.
          Inr (paz_node, sensitivity_node, seismometer_gain_node)))))"


text \<open>An item of such a list: a complex number, or a text.\<close>

datatype pyobj = PComplex complex | PText string

text \<open>
  \<^verbatim>\<open>p[0] + p[1] * 1j\<close> on two elements.  The product needs a number element.  The sum
  with a number element is a complex number; a string element appends the text of
  the product to its own text; any other element is no operand of the sum.
\<close>

definition elem_plus_times_j :: "'tr env \<Rightarrow> node \<Rightarrow> node \<Rightarrow> error + pyobj" where
  "elem_plus_times_j env p0 p1 =
     (case pytype env p1 of
        NumberElement im \<Rightarrow>
          (case pytype env p0 of
             NumberElement re \<Rightarrow> Inr (PComplex (complex_of_real re + complex_of_real im * \<i>))
           | StringElement \<Rightarrow>
               Inr (PText (elem_text p0 @ str_complex env (complex_of_real im * \<i>)))
           | OtherElement \<Rightarrow> Inl TypeError)
      | StringElement \<Rightarrow> Inl TypeError
      | OtherElement \<Rightarrow> Inl TypeError)"

text \<open>The list comprehension over the pairs, in order.\<close>

fun elem_pairs :: "'tr env \<Rightarrow> (node \<times> node) list \<Rightarrow> error + pyobj list" where
  "elem_pairs env [] = Inr []"
| "elem_pairs env (p # ps) =
     bind_err (elem_plus_times_j env (fst p) (snd p)) (\<lambda>z.
     bind_err (elem_pairs env ps) (\<lambda>zs. Inr (z # zs)))"

text \<open>Lines 388 to 391 and 393 to 396, for the poles (\<open>kind = ''pole''\<close>) and the zeros.\<close>

definition complex_list :: "'tr env \<Rightarrow> node \<Rightarrow> string \<Rightarrow> error + pyobj list" where
  "complex_list env paz_node kind =
     bind_err (getattr paz_node (''complex_'' @ kind)) (\<lambda>c.
     bind_err (getattr_slice c (''real_'' @ kind)) (\<lambda>real_parts.
     bind_err (getattr paz_node (''complex_'' @ kind)) (\<lambda>c.
     bind_err (getattr_slice c (''imaginary_'' @ kind)) (\<lambda>imag_parts.
       elem_pairs env (zip real_parts imag_parts)))))"

text \<open>A value of the result dictionary: a list of items or an element.\<close>

datatype pazval = Items "pyobj list" | Elem node

text \<open>Lines 386 to 404.\<close>

definition build_paz ::
  "'tr env \<Rightarrow> node \<times> node \<times> node \<Rightarrow> bool \<Rightarrow> error + (string, pazval) dict"
where
  "build_paz env nodes seismometer_gain =
     (case nodes of (paz_node, sensitivity_node, seismometer_gain_node) \<Rightarrow>
        bind_err (complex_list env paz_node ''pole'') (\<lambda>poles.
        bind_err (complex_list env paz_node ''zero'') (\<lambda>zeros.
        bind_err (getattr paz_node ''A0_normalization_factor'') (\<lambda>gain.
        bind_err (getattr sensitivity_node ''sensitivity_gain'') (\<lambda>sensitivity.
          let paz =
            AList.update ''sensitivity'' (Elem sensitivity)
              (AList.update ''gain'' (Elem gain)
                (AList.update ''zeros'' (Items zeros)
                  (AList.update ''poles'' (Items poles) [])))
          in if seismometer_gain then
               bind_err (getattr seismometer_gain_node ''sensitivity_gain'') (\<lambda>g.
                 Inr (AList.update ''seismometer_gain'' (Elem g) paz))
             else Inr paz)))))"

text \<open>Lines 342 to 404.\<close>

definition getPAZ ::
  "'tr env \<Rightarrow> string \<Rightarrow> string \<Rightarrow> pyval \<Rightarrow> string \<Rightarrow> string \<Rightarrow> bool \<Rightarrow> (string, pazval) dict io"
where
  "getPAZ env network_id station_id datetime location_id channel_id seismometer_gain =
     bind_io
       (getList env []
          [(''network_id'', PStr network_id), (''station_id'', PStr station_id),
           (''datetime'', datetime)])
       (\<lambda>station_list.
          if station_list = [] then lift_io (Inr [])
          else
            (case no_wildcards channel_id location_id of (channel_id, location_id) \<Rightarrow>
               bind_io (lift_io (getitem (hd station_list) ''resource_name'')) (\<lambda>resource_name.
               bind_io (getXMLResource env resource_name []) (\<lambda>res.
                 lift_io
                   (bind_err (getattr res ''station_control_header'') (\<lambda>base_node.
                    bind_err (select_nodes env base_node channel_id location_id) (\<lambda>nodes.
                      build_paz env nodes seismometer_gain)))))))"

subsection \<open>Node selection in the words of the specification\<close>

text \<open>The siblings that follow the first element satisfying \<open>P\<close>.\<close>

definition after_first :: "('a \<Rightarrow> bool) \<Rightarrow> 'a list \<Rightarrow> 'a list" where
  "after_first P xs = tl (dropWhile (\<lambda>x. \<not> P x) xs)"

text \<open>The nearest of them that satisfies \<open>Q\<close>; none is an \<^verbatim>\<open>IndexError\<close>.\<close>

definition nearest :: "('a \<Rightarrow> bool) \<Rightarrow> 'a list \<Rightarrow> error + 'a" where
  "nearest Q xs = (case find Q xs of None \<Rightarrow> Inl IndexError | Some x \<Rightarrow> Inr x)"

definition is_paz :: "node \<Rightarrow> bool" where
  "is_paz n \<longleftrightarrow> tag n = ''response_poles_and_zeros''"

definition is_gain :: "string \<Rightarrow> node \<Rightarrow> bool" where
  "is_gain stage n \<longleftrightarrow>
     tag n = ''channel_sensitivity_gain'' \<and> field_eq ''stage_sequence_number'' stage n"

subsection \<open>A small client and documents to run the operations on\<close>

definition leaf :: "string \<Rightarrow> string \<Rightarrow> node" where
  "leaf name content = Node name content [] []"

text \<open>
  A type inference that reads the one-digit texts \<^verbatim>\<open>0\<close> to \<^verbatim>\<open>4\<close> of elements without
  children as numbers and any other such text as a string.
\<close>

definition demo_pytype :: "node \<Rightarrow> pytype" where
  "demo_pytype n =
     (if children n \<noteq> [] then OtherElement
      else case map_of [(''0'', 0), (''1'', 1), (''2'', 2), (''3'', 3), (''4'', 4)] (elem_text n) of
        Some x \<Rightarrow> NumberElement x
      | None \<Rightarrow> StringElement)"

text \<open>
  A server that answers every address with the address itself, a parser that reads
  the station list from an address under \<^verbatim>\<open>/seismology\<close> and the station resource from
  one under \<^verbatim>\<open>/xml\<close>, and an unpickler that yields one trace.
\<close>

definition demo_client :: "node \<Rightarrow> node \<Rightarrow> string env" where
  "demo_client station_list resource =
     \<lparr> base_url = [],
       urlopen = (\<lambda>addr. Inr addr),
       str_ext = (\<lambda>v. ''object''),
       quote_plus = (\<lambda>s. s),
       fromstring = (\<lambda>body. if take 4 body = ''/xml'' then Inr resource else Inr station_list),
       pytype = demo_pytype,
       str_complex = (\<lambda>z. ''complex''),
       xpath_ext = (\<lambda>base_node expression. Inl (ExternalError ''XPathEvalError'')),
       loads = (\<lambda>data. Inr [data]),
       trim = (\<lambda>stream start end. stream),
       BAND_CODE = map_of [(CHR ''E'', 80), (CHR ''B'', 10)],
       UTCDateTime = (\<lambda>s. Inl (ExternalError ''ValueError'')) \<rparr>"

definition demo_paz_node :: node where
  "demo_paz_node =
     Node ''response_poles_and_zeros'' []
       [leaf ''A0_normalization_factor'' ''1'',
        Node ''complex_zero'' [] [leaf ''real_zero'' ''0'', leaf ''imaginary_zero'' ''0''] [],
        Node ''complex_pole'' []
          [leaf ''real_pole'' ''1'', leaf ''real_pole'' ''2'',
           leaf ''imaginary_pole'' ''3'', leaf ''imaginary_pole'' ''4''] []] []"

text \<open>A conversion for values that are not strings, and a quoting that changes nothing.\<close>

definition demo_str :: "pyval \<Rightarrow> string" where
  "demo_str v = ''object''"

definition demo_quote :: "string \<Rightarrow> string" where
  "demo_quote s = s"

definition demo_empty_stream_client :: "string env" where
  "demo_empty_stream_client = (demo_client (leaf ''r'' []) (leaf ''r'' [])) \<lparr> loads := (\<lambda>data. Inr []) \<rparr>"

text \<open>A station list and a station resource with two channels.\<close>

definition demo_channel :: "string \<Rightarrow> string \<Rightarrow> node" where
  "demo_channel location channel =
     Node ''channel_identifier'' []
       [leaf ''location_identifier'' location, leaf ''channel_identifier'' channel] []"

definition demo_gain :: "string \<Rightarrow> string \<Rightarrow> node" where
  "demo_gain stage gain =
     Node ''channel_sensitivity_gain'' []
       [leaf ''stage_sequence_number'' stage, leaf ''sensitivity_gain'' gain] []"

definition demo_paz_node2 :: node where
  "demo_paz_node2 =
     Node ''response_poles_and_zeros'' []
       [leaf ''A0_normalization_factor'' ''2'',
        Node ''complex_zero'' [] [leaf ''real_zero'' ''0'', leaf ''imaginary_zero'' ''0''] [],
        Node ''complex_pole'' [] [leaf ''real_pole'' ''4'', leaf ''imaginary_pole'' ''3''] []] []"

definition demo_header :: node where
  "demo_header =
     Node ''station_control_header'' []
       [demo_channel [] ''EHZ'', demo_paz_node, demo_gain ''1'' ''400'', demo_gain ''0'' ''1000'',
        demo_channel [] ''EHN'', demo_paz_node2, demo_gain ''0'' ''2000''] []"

definition demo_resource :: node where
  "demo_resource = Node ''xseed'' [] [demo_header] []"

definition demo_stations :: node where
  "demo_stations =
     Node ''ResultSet'' [] [Node ''Item'' [] [leaf ''resource_name'' ''BW_MANZ.xml''] []] []"

definition demo_no_stations :: node where
  "demo_no_stations = Node ''ResultSet'' [] [] []"




section \<open>Properties\<close>

subsection \<open>Exceptions\<close>

lemma bind_err_Inr: "bind_err m f = Inr y \<longleftrightarrow> (\<exists>x. m = Inr x \<and> f x = Inr y)"
  by (cases m) auto

lemma bind_err_Inl: "bind_err m f = Inl e \<longleftrightarrow> m = Inl e \<or> (\<exists>x. m = Inr x \<and> f x = Inl e)"
  by (cases m) auto

subsection \<open>Wildcards\<close>





subsection \<open>Complex reconstruction\<close>





subsection \<open>The query encoder\<close>

lemma update_fresh: "k \<notin> fst ` set al \<Longrightarrow> AList.update k v al = al @ [(k, v)]"
  by (induction al) auto

lemma spec_params_Cons: "spec_params ext (kv # kw) = spec_pairs ext kv @ spec_params ext kw"
  by (simp add: spec_params_def)

lemma spec_params_Nil: "spec_params ext [] = []"
  by (simp add: spec_params_def)

lemma spec_pairs_cases:
  "(\<not> truthy (snd kv) \<and> spec_pairs ext kv = []) \<or>
   (truthy (snd kv) \<and> two_sequence (snd kv) = None \<and> spec_pairs ext kv = [(fst kv, str_py ext (snd kv))]) \<or>
   (\<exists>lo hi. truthy (snd kv) \<and> two_sequence (snd kv) = Some (lo, hi) \<and>
      spec_pairs ext kv = [(''min_'' @ fst kv, str_py ext lo), (''max_'' @ fst kv, str_py ext hi)])"
  by (cases "two_sequence (snd kv)") (auto simp: spec_pairs_def)

lemma fetch_params_step:
  "fetch_params ext (kv # kwargs) params =
     fetch_params ext kwargs
       (case spec_pairs ext kv of
          [] \<Rightarrow> params
        | [a] \<Rightarrow> AList.update (fst a) (snd a) params
        | a # b # _ \<Rightarrow> AList.update (fst b) (snd b) (AList.update (fst a) (snd a) params))"
  by (cases kv; cases "two_sequence (snd kv)") (auto simp: spec_pairs_def)

text \<open>As long as every name is new, the loop appends what the specification lists.\<close>

lemma fetch_params_append:
  "distinct (map fst params @ map fst (spec_params ext kwargs)) \<Longrightarrow>
   fetch_params ext kwargs params = params @ spec_params ext kwargs"
proof (induction kwargs arbitrary: params)
  case Nil
  then show ?case by (simp add: spec_params_Nil)
next
  case (Cons kv kwargs)
  let ?new = "spec_pairs ext kv"
  have d: "distinct (map fst (params @ ?new) @ map fst (spec_params ext kwargs))"
    using Cons.prems by (simp add: spec_params_Cons)
  have step: "fetch_params ext (kv # kwargs) params = fetch_params ext kwargs (params @ ?new)"
  proof -
    consider (none) "?new = []"
      | (one) a where "?new = [a]"
      | (two) a b where "?new = [a, b]"
      using spec_pairs_cases [of kv ext] by auto
    then show ?thesis
    proof cases
      case none
      then show ?thesis by (simp add: fetch_params_step)
    next
      case (one a)
      with d have "fst a \<notin> fst ` set params" by auto
      with one show ?thesis by (simp add: fetch_params_step update_fresh)
    next
      case (two a b)
      with d have "fst a \<notin> fst ` set params" "fst b \<notin> fst ` set (params @ [(fst a, snd a)])"
        by auto
      with two show ?thesis by (simp add: fetch_params_step update_fresh)
    qed
  qed
  show ?case
    unfolding step using Cons.IH [OF d] by (simp add: spec_params_Cons)
qed

lemma spec_pairs_names:
  assumes "x \<in> fst ` set (spec_pairs ext kv)"
  shows "truthy (snd kv) \<and>
     ((two_sequence (snd kv) = None \<and> x = fst kv) \<or>
      (two_sequence (snd kv) \<noteq> None \<and> (x = ''min_'' @ fst kv \<or> x = ''max_'' @ fst kv)))"
  using assms spec_pairs_cases [of kv ext] by auto

lemma spec_params_names:
  assumes "x \<in> fst ` set (spec_params ext kw)"
  shows "\<exists>kv\<in>set kw. truthy (snd kv) \<and>
     ((two_sequence (snd kv) = None \<and> x = fst kv) \<or>
      (two_sequence (snd kv) \<noteq> None \<and> (x = ''min_'' @ fst kv \<or> x = ''max_'' @ fst kv)))"
proof -
  from assms obtain kv where "kv \<in> set kw" "x \<in> fst ` set (spec_pairs ext kv)"
    by (auto simp: spec_params_def)
  with spec_pairs_names [of x ext kv] show ?thesis by blast
qed

lemma spec_pairs_distinct: "distinct (map fst (spec_pairs ext kv))"
  using spec_pairs_cases [of kv ext] by auto

lemma spec_params_distinct_aux:
  assumes "distinct (map fst kw)"
    and "\<forall>kv\<in>set kw. two_sequence (snd kv) = None \<or>
           (''min_'' @ fst kv \<notin> K \<and> ''max_'' @ fst kv \<notin> K)"
    and "fst ` set kw \<subseteq> K"
  shows "distinct (map fst (spec_params ext kw))"
  using assms
proof (induction kw)
  case Nil
  then show ?case by (simp add: spec_params_Nil)
next
  case (Cons kv kw)
  from Cons have IH: "distinct (map fst (spec_params ext kw))" by auto
  have disj: "x \<notin> fst ` set (spec_params ext kw)" if x: "x \<in> fst ` set (spec_pairs ext kv)" for x
  proof
    assume "x \<in> fst ` set (spec_params ext kw)"
    from spec_params_names [OF this] obtain kv' where kv': "kv' \<in> set kw"
      and c': "(two_sequence (snd kv') = None \<and> x = fst kv') \<or>
        (two_sequence (snd kv') \<noteq> None \<and> (x = ''min_'' @ fst kv' \<or> x = ''max_'' @ fst kv'))"
      by blast
    from kv' Cons.prems(1) have ne: "fst kv' \<noteq> fst kv" by (auto simp: image_iff)
    from kv' Cons.prems(3) have inK: "fst kv' \<in> K" "fst kv \<in> K" by auto
    from kv' Cons.prems(2) have cl': "two_sequence (snd kv') = None \<or>
           (''min_'' @ fst kv' \<notin> K \<and> ''max_'' @ fst kv' \<notin> K)" by auto
    from Cons.prems(2) have cl: "two_sequence (snd kv) = None \<or>
           (''min_'' @ fst kv \<notin> K \<and> ''max_'' @ fst kv \<notin> K)" by auto
    from spec_pairs_names [OF x] c' ne inK cl cl' show False by auto
  qed
  from IH disj spec_pairs_distinct [of ext kv] show ?case
    by (auto simp: spec_params_Cons)
qed

lemma spec_params_distinct:
  "distinct (map fst kw) \<Longrightarrow> no_bound_clash kw \<Longrightarrow> distinct (map fst (spec_params ext kw))"
  by (rule spec_params_distinct_aux [where K = "fst ` set kw"])
    (auto simp: no_bound_clash_def list_all_iff)

lemma clash_bounds:
  assumes "no_bound_clash kw" "kv \<in> set kw" "two_sequence (snd kv) \<noteq> None"
  shows "''min_'' @ fst kv \<notin> fst ` set kw" "''max_'' @ fst kv \<notin> fst ` set kw"
  using assms by (auto simp: no_bound_clash_def list_all_iff)

lemma same_key:
  assumes "distinct (map fst kw)" "kv \<in> set kw" "kv' \<in> set kw" "fst kv = fst kv'"
  shows "kv = kv'"
  using assms by (metis eq_key_imp_eq_value prod.collapse)

lemma spec_params_omits:
  assumes "distinct (map fst kw)" "no_bound_clash kw" "kv \<in> set kw"
    and "\<not> truthy (snd kv) \<or> two_sequence (snd kv) \<noteq> None"
  shows "fst kv \<notin> fst ` set (spec_params ext kw)"
proof
  assume "fst kv \<in> fst ` set (spec_params ext kw)"
  from spec_params_names [OF this] obtain kv' where kv': "kv' \<in> set kw" "truthy (snd kv')"
      and c': "(two_sequence (snd kv') = None \<and> fst kv = fst kv') \<or>
        (two_sequence (snd kv') \<noteq> None \<and> (fst kv = ''min_'' @ fst kv' \<or> fst kv = ''max_'' @ fst kv'))"
    by blast
  from c' show False
  proof
    assume a: "two_sequence (snd kv') = None \<and> fst kv = fst kv'"
    with same_key [OF assms(1,3) kv'(1)] have "kv = kv'" by simp
    with a kv'(2) assms(4) show False by simp
  next
    assume a: "two_sequence (snd kv') \<noteq> None \<and> (fst kv = ''min_'' @ fst kv' \<or> fst kv = ''max_'' @ fst kv')"
    with clash_bounds [OF assms(2) kv'(1)] assms(3) show False by (auto simp: image_iff)
  qed
qed

lemma spec_params_holds:
  assumes "distinct (map fst kw)" "no_bound_clash kw" "kv \<in> set kw" "p \<in> set (spec_pairs ext kv)"
  shows "map_of (spec_params ext kw) (fst p) = Some (snd p)"
proof -
  from assms(3,4) have "p \<in> set (spec_params ext kw)" by (auto simp: spec_params_def)
  with spec_params_distinct [OF assms(1,2), of ext] show ?thesis
    by (cases p) simp
qed

lemma two_sequence_truthy: "two_sequence v = Some p \<Longrightarrow> truthy v"
  by (cases v rule: two_sequence.cases) auto

text \<open>
  C6, amended.  For a dictionary with distinct keys, none of which is the \<^verbatim>\<open>min_\<close> or
  \<^verbatim>\<open>max_\<close> name of a key holding a pair, the parameters \<^verbatim>\<open>_fetch\<close> encodes are those the
  specification lists, in the order of the dictionary: a key with a false value is
  absent; a key \<open>k\<close> with a pair \<open>(lo, hi)\<close> gives \<^verbatim>\<open>min_k\<close> with the text of \<open>lo\<close> and
  \<^verbatim>\<open>max_k\<close> with the text of \<open>hi\<close> and no parameter \<open>k\<close>; any other key gives one
  parameter with the text of its value.  The query string joins them, quoted.
\<close>

theorem fetch_params_encodes:
  assumes "distinct (map fst kwargs)" and "no_bound_clash kwargs"
  shows "fetch_params ext kwargs [] = spec_params ext kwargs \<and>
    urlencode quote (fetch_params ext kwargs []) =
      join ''&'' (map (\<lambda>(k, v). quote k @ ''='' @ quote v) (spec_params ext kwargs)) \<and>
    (\<forall>kv\<in>set kwargs. \<not> truthy (snd kv) \<longrightarrow> fst kv \<notin> fst ` set (fetch_params ext kwargs [])) \<and>
    (\<forall>kv\<in>set kwargs. \<forall>lo hi. two_sequence (snd kv) = Some (lo, hi) \<longrightarrow>
       map_of (fetch_params ext kwargs []) (''min_'' @ fst kv) = Some (str_py ext lo) \<and>
       map_of (fetch_params ext kwargs []) (''max_'' @ fst kv) = Some (str_py ext hi) \<and>
       fst kv \<notin> fst ` set (fetch_params ext kwargs [])) \<and>
    (\<forall>kv\<in>set kwargs. truthy (snd kv) \<and> two_sequence (snd kv) = None \<longrightarrow>
       map_of (fetch_params ext kwargs []) (fst kv) = Some (str_py ext (snd kv)))"
proof -
  have eq: "fetch_params ext kwargs [] = spec_params ext kwargs"
    using fetch_params_append [of "[]" ext kwargs] spec_params_distinct [OF assms, of ext] by simp
  have falsy: "fst kv \<notin> fst ` set (spec_params ext kwargs)"
    if "kv \<in> set kwargs" "\<not> truthy (snd kv)" for kv
    using spec_params_omits [OF assms that(1)] that(2) by simp
  have pair: "map_of (spec_params ext kwargs) (''min_'' @ fst kv) = Some (str_py ext lo) \<and>
       map_of (spec_params ext kwargs) (''max_'' @ fst kv) = Some (str_py ext hi) \<and>
       fst kv \<notin> fst ` set (spec_params ext kwargs)"
    if "kv \<in> set kwargs" "two_sequence (snd kv) = Some (lo, hi)" for kv lo hi
  proof -
    from that(2) spec_pairs_cases [of kv ext] two_sequence_truthy [OF that(2)]
    have sp: "spec_pairs ext kv = [(''min_'' @ fst kv, str_py ext lo), (''max_'' @ fst kv, str_py ext hi)]"
      by auto
    from spec_params_holds [OF assms that(1), of "(''min_'' @ fst kv, str_py ext lo)" ext]
      spec_params_holds [OF assms that(1), of "(''max_'' @ fst kv, str_py ext hi)" ext]
      spec_params_omits [OF assms that(1), of ext] sp that(2)
    show ?thesis by simp
  qed
  have scalar: "map_of (spec_params ext kwargs) (fst kv) = Some (str_py ext (snd kv))"
    if "kv \<in> set kwargs" "truthy (snd kv)" "two_sequence (snd kv) = None" for kv
  proof -
    from that(2,3) spec_pairs_cases [of kv ext]
    have "spec_pairs ext kv = [(fst kv, str_py ext (snd kv))]" by auto
    with spec_params_holds [OF assms that(1), of "(fst kv, str_py ext (snd kv))" ext]
    show ?thesis by simp
  qed
  from falsy pair scalar show ?thesis
    unfolding eq urlencode_def by blast
qed

theorem fetch_params_encodes_witness:
  "urlencode demo_quote
     (fetch_params demo_str
        [(''station_id'', PStr ''MANZ''), (''location_id'', PStr []),
         (''start'', PTuple [PStr ''2009-01-01'', PStr ''2009-01-02''])] []) =
   ''station_id=MANZ&min_start=2009-01-01&max_start=2009-01-02''"
proof -
  let ?kw = "[(''station_id'', PStr ''MANZ''), (''location_id'', PStr []),
         (''start'', PTuple [PStr ''2009-01-01'', PStr ''2009-01-02''])]"
  have h1: "distinct (map fst ?kw)" by simp
  have h2: "no_bound_clash ?kw" by (simp add: no_bound_clash_def)
  from fetch_params_encodes [OF h1 h2, where quote = demo_quote and ext = demo_str]
  have "urlencode demo_quote (fetch_params demo_str ?kw []) =
      join ''&'' (map (\<lambda>(k, v). demo_quote k @ ''='' @ demo_quote v) (spec_params demo_str ?kw))"
    by blast
  then show ?thesis
    by (simp add: spec_params_def spec_pairs_def demo_quote_def)
qed

text \<open>
  C6 as stated fails when a key is the bound name of another: with \<^verbatim>\<open>k=('1','2')\<close>
  and \<^verbatim>\<open>min_k='7'\<close>, whichever the dictionary yields first, one of the two values is
  not encoded.
\<close>

theorem fetch_params_bound_clash:
  "urlencode demo_quote
     (fetch_params demo_str [(''k'', PTuple [PStr ''1'', PStr ''2'']), (''min_k'', PStr ''7'')] []) =
     ''min_k=7&max_k=2'' \<and>
   urlencode demo_quote
     (fetch_params demo_str [(''min_k'', PStr ''7''), (''k'', PTuple [PStr ''1'', PStr ''2''])] []) =
     ''min_k=1&max_k=2''"
  by (simp add: urlencode_def demo_quote_def)

subsection \<open>Waveforms and previews\<close>

lemma bind_io_lift_Inl [simp]: "bind_io (lift_io (Inl e)) f = ([], Inl e)"
  by (simp add: bind_io_def lift_io_def)

lemma bind_io_lift_Inr [simp]: "bind_io (lift_io (Inr x)) f = f x"
  by (simp add: bind_io_def lift_io_def)

lemma bind_io_lift:
  "bind_io (lift_io r) f = (case r of Inl e \<Rightarrow> ([], Inl e) | Inr x \<Rightarrow> f x)"
  by (cases r) simp_all

lemma bind_io_fetch:
  "bind_io (fetch env url kw) f =
     (case urlopen env (remoteaddr env url kw) of
        Inl e \<Rightarrow> ([remoteaddr env url kw], Inl e)
      | Inr data \<Rightarrow> (remoteaddr env url kw # fst (f data), snd (f data)))"
  by (simp add: bind_io_def fetch_def split: sum.splits)

lemma fst_lift_io [simp]: "fst (lift_io r) = []"
  by (simp add: lift_io_def)

lemma snd_lift_io [simp]: "snd (lift_io r) = r"
  by (simp add: lift_io_def)

lemma outcome_lift [simp]: "outcome (lift_io r) = r"
  by (simp add: outcome_def lift_io_def)

lemma requests_lift [simp]: "requests (lift_io r) = []"
  by (simp add: requests_def lift_io_def)


lemma getWaveform_kwargs_unknown_band:
  assumes "channel_id = b # rest" "BAND_CODE env b = None"
  shows "getWaveform_kwargs env network_id station_id location_id channel_id start_datetime
      end_datetime apply_filter kwargs =
     (case to_time env start_datetime of Inl e \<Rightarrow> Inl e | Inr t \<Rightarrow> Inl KeyError)"
  using assms by (simp add: getWaveform_kwargs_def padding_def split: sum.splits)

lemma getWaveform_after_kwargs:
  assumes "getWaveform_kwargs env network_id station_id location_id channel_id start_datetime
      end_datetime apply_filter kwargs = Inr (kw, start, stop)"
  shows "getWaveform env network_id station_id location_id channel_id start_datetime
      end_datetime apply_filter kwargs =
    ([remoteaddr env ''/seismology/waveform/getWaveform'' kw],
     case urlopen env (remoteaddr env ''/seismology/waveform/getWaveform'' kw) of
       Inl e \<Rightarrow> Inl e
     | Inr data \<Rightarrow>
         if data = [] then Inl NoWaveformData
         else case loads env data of
           Inl e \<Rightarrow> Inl e
         | Inr stream \<Rightarrow> if stream = [] then Inl NoWaveformData else Inr (trim env stream start stop))"
  using assms
  by (simp add: getWaveform_def bind_io_fetch bind_io_lift split: sum.splits)

lemma getWaveform_kwargs_fail:
  assumes "getWaveform_kwargs env network_id station_id location_id channel_id start_datetime
      end_datetime apply_filter kwargs = Inl e"
  shows "getWaveform env network_id station_id location_id channel_id start_datetime
      end_datetime apply_filter kwargs = ([], Inl e)"
  using assms by (simp add: getWaveform_def)

lemma getPreview_after:
  assumes "positional [''network_id'', ''station_id'', ''location_id'', ''channel_id'',
           ''start_datetime'', ''end_datetime'', ''trace_ids''] args kwargs = Inr kw"
  shows "getPreview env args kwargs =
    ([remoteaddr env ''/seismology/waveform/getPreview'' kw],
     case urlopen env (remoteaddr env ''/seismology/waveform/getPreview'' kw) of
       Inl e \<Rightarrow> Inl e
     | Inr data \<Rightarrow> if data = [] then Inl NoWaveformData else loads env data)"
  using assms
  by (simp add: getPreview_def bind_io_fetch bind_io_lift split: sum.splits)

lemma getPreviewByIds_after:
  assumes "bind_err (positional [''trace_ids'', ''start_datetime'', ''end_datetime''] args kwargs)
          join_trace_ids = Inr kw"
  shows "getPreviewByIds env args kwargs =
    ([remoteaddr env ''/seismology/waveform/getPreview'' kw],
     case urlopen env (remoteaddr env ''/seismology/waveform/getPreview'' kw) of
       Inl e \<Rightarrow> Inl e
     | Inr data \<Rightarrow> if data = [] then Inl NoWaveformData else loads env data)"
  using assms
  by (simp add: getPreviewByIds_def bind_io_fetch bind_io_lift split: sum.splits)




text \<open>
  C9, amended.  When the first character of the channel code is not a key of
  \<^verbatim>\<open>BAND_CODE\<close>, \<^verbatim>\<open>getWaveform\<close> requests no address and raises: the \<^verbatim>\<open>KeyError\<close> of the
  table when the start time is a time object or a string that converts, and the
  exception of the conversion when the start time is a string that does not.
\<close>

theorem getWaveform_unknown_band:
  assumes "channel_id = b # rest" and "BAND_CODE env b = None"
  shows "requests (getWaveform env network_id station_id location_id channel_id start_datetime
        end_datetime apply_filter kwargs) = [] \<and>
    (\<forall>t. to_time env start_datetime = Inr t \<longrightarrow>
       outcome (getWaveform env network_id station_id location_id channel_id start_datetime
        end_datetime apply_filter kwargs) = Inl KeyError) \<and>
    (\<forall>e. to_time env start_datetime = Inl e \<longrightarrow>
       outcome (getWaveform env network_id station_id location_id channel_id start_datetime
        end_datetime apply_filter kwargs) = Inl e)"
proof -
  let ?prep = "getWaveform_kwargs env network_id station_id location_id channel_id start_datetime
      end_datetime apply_filter kwargs"
  have prep: "?prep = (case to_time env start_datetime of Inl e \<Rightarrow> Inl e | Inr t \<Rightarrow> Inl KeyError)"
    by (rule getWaveform_kwargs_unknown_band [OF assms])
  then obtain e where e: "?prep = Inl e" by (cases "to_time env start_datetime") auto
  from getWaveform_kwargs_fail [OF e] e prep show ?thesis
    by (auto simp: requests_def outcome_def)
qed

theorem getWaveform_unknown_band_witness:
  "requests (getWaveform (demo_client (leaf ''r'' []) (leaf ''r'' [])) ''BW'' ''MANZ'' [] ''XHZ''
       (TTime 100) (TTime 120) False []) = [] \<and>
   outcome (getWaveform (demo_client (leaf ''r'' []) (leaf ''r'' [])) ''BW'' ''MANZ'' [] ''XHZ''
       (TTime 100) (TTime 120) False []) = Inl KeyError"
proof -
  let ?env = "demo_client (leaf ''r'' []) (leaf ''r'' [])"
  have h1: "''XHZ'' = CHR ''X'' # ''HZ''" by simp
  have h2: "BAND_CODE ?env CHR ''X'' = None" by (simp add: demo_client_def)
  from getWaveform_unknown_band [OF h1 h2, of "''BW''" "''MANZ''" "[]" "TTime 100" "TTime 120" False "[]"]
  show ?thesis by simp
qed

text \<open>
  C9 as stated fails for a start string that \<^verbatim>\<open>UTCDateTime\<close> rejects: line 194 raises
  before the table is read on line 195, and the exception is not a lookup error.
\<close>

theorem getWaveform_unknown_band_bad_start:
  "getWaveform (demo_client (leaf ''r'' []) (leaf ''r'' [])) ''BW'' ''MANZ'' [] ''XHZ''
       (TString ''garbage'') (TTime 120) False [] = ([], Inl (ExternalError ''ValueError''))"
  by (simp add: getWaveform_def getWaveform_kwargs_def demo_client_def)



text \<open>
  What the three operations do with a body: \<^verbatim>\<open>getWaveform\<close> raises the no-data
  exception for an empty body and for an unpickled stream without a trace; the two
  preview operations raise it for an empty body and return whatever else is
  unpickled.
\<close>

lemma no_data_raised:
  "(getWaveform_kwargs env network_id station_id location_id channel_id start_datetime
        end_datetime apply_filter kwargs = Inr (kw, start, stop) \<longrightarrow>
      (urlopen env (remoteaddr env ''/seismology/waveform/getWaveform'' kw) = Inr [] \<longrightarrow>
         outcome (getWaveform env network_id station_id location_id channel_id start_datetime
           end_datetime apply_filter kwargs) = Inl NoWaveformData) \<and>
      (\<forall>data. urlopen env (remoteaddr env ''/seismology/waveform/getWaveform'' kw) = Inr data \<and>
           loads env data = Inr [] \<longrightarrow>
         outcome (getWaveform env network_id station_id location_id channel_id start_datetime
           end_datetime apply_filter kwargs) = Inl NoWaveformData)) \<and>
   (positional [''network_id'', ''station_id'', ''location_id'', ''channel_id'',
        ''start_datetime'', ''end_datetime'', ''trace_ids''] args kwargs = Inr kwp \<longrightarrow>
      (urlopen env (remoteaddr env ''/seismology/waveform/getPreview'' kwp) = Inr [] \<longrightarrow>
         outcome (getPreview env args kwargs) = Inl NoWaveformData) \<and>
      (\<forall>data. data \<noteq> [] \<and>
           urlopen env (remoteaddr env ''/seismology/waveform/getPreview'' kwp) = Inr data \<longrightarrow>
         outcome (getPreview env args kwargs) = loads env data)) \<and>
   (bind_err (positional [''trace_ids'', ''start_datetime'', ''end_datetime''] args kwargs)
        join_trace_ids = Inr kwi \<longrightarrow>
      (urlopen env (remoteaddr env ''/seismology/waveform/getPreview'' kwi) = Inr [] \<longrightarrow>
         outcome (getPreviewByIds env args kwargs) = Inl NoWaveformData) \<and>
      (\<forall>data. data \<noteq> [] \<and>
           urlopen env (remoteaddr env ''/seismology/waveform/getPreview'' kwi) = Inr data \<longrightarrow>
         outcome (getPreviewByIds env args kwargs) = loads env data))"
  by (auto simp: getWaveform_after_kwargs getPreview_after getPreviewByIds_after outcome_def)

text \<open>
  C3.  With a server whose body unpickles to a stream without a trace, \<^verbatim>\<open>getWaveform\<close>
  raises the no-data exception, while \<^verbatim>\<open>getPreview\<close> and \<^verbatim>\<open>getPreviewByIds\<close> return
  the stream without a trace.
\<close>

theorem preview_zero_traces_returned:
  "outcome (getWaveform demo_empty_stream_client ''BW'' ''MANZ'' [] ''EHZ'' (TTime 100) (TTime 120)
      False []) = Inl NoWaveformData \<and>
   outcome (getPreview demo_empty_stream_client [] []) = Inr [] \<and>
   outcome (getPreviewByIds demo_empty_stream_client [] []) = Inr []"
proof -
  obtain kw where prep: "getWaveform_kwargs demo_empty_stream_client ''BW'' ''MANZ'' [] ''EHZ''
      (TTime 100) (TTime 120) False [] = Inr (kw, 100, 120)"
    by (simp add: getWaveform_kwargs_def padding_def demo_empty_stream_client_def demo_client_def)
  have "outcome (getWaveform demo_empty_stream_client ''BW'' ''MANZ'' [] ''EHZ'' (TTime 100)
      (TTime 120) False []) = Inl NoWaveformData"
    unfolding getWaveform_after_kwargs [OF prep] outcome_def
    by (simp add: demo_empty_stream_client_def demo_client_def remoteaddr_def)
  then show ?thesis
    by (simp add: getPreview_after getPreviewByIds_after join_trace_ids_def outcome_def
        demo_empty_stream_client_def demo_client_def remoteaddr_def)
qed

subsection \<open>Poles and zeros: the structure of the call\<close>

lemma nth_filter_upt: "map (\<lambda>j. cs ! j) (filter (\<lambda>j. Q (cs ! j)) [0..<length cs]) = filter Q cs"
proof -
  have "filter Q (map (\<lambda>j. cs ! j) [0..<length cs]) =
      map (\<lambda>j. cs ! j) (filter (\<lambda>j. Q (cs ! j)) [0..<length cs])"
    by (simp add: filter_map comp_def)
  then show ?thesis by (simp add: map_nth)
qed

lemma list_ex_upt: "list_ex R [0..<n] \<longleftrightarrow> (\<exists>i<n. R i)"
  by (auto simp del: upt_Suc simp: list_ex_iff)

lemma list_ex_upt_Suc:
  "list_ex (\<lambda>i. P ((c # cs) ! i)) [0..<Suc j] \<longleftrightarrow> P c \<or> list_ex (\<lambda>i. P (cs ! i)) [0..<j]"
  unfolding list_ex_upt by (auto simp: less_Suc_eq_0_disj)

lemma following_sibling_Cons:
  "following_sibling P Q (c # cs) = (if P c then filter Q cs else following_sibling P Q cs)"
proof -
  have upt: "[0..<length (c # cs)] = 0 # map Suc [0..<length cs]"
    by (simp add: upt_conv_Cons map_Suc_upt del: upt_Suc)
  have "following_sibling P Q (c # cs) =
      map (\<lambda>j. cs ! j)
        (filter (\<lambda>j. (P c \<or> list_ex (\<lambda>i. P (cs ! i)) [0..<j]) \<and> Q (cs ! j)) [0..<length cs])"
    unfolding following_sibling_def upt
    by (simp add: filter_map comp_def list_ex_upt_Suc del: upt_Suc)
  then show ?thesis
    by (simp add: nth_filter_upt following_sibling_def)
qed

lemma following_sibling_Nil: "following_sibling P Q [] = []"
  by (simp add: following_sibling_def)

lemma following_sibling_eq: "following_sibling P Q cs = filter Q (after_first P cs)"
  by (induction cs) (simp_all add: following_sibling_Cons following_sibling_Nil after_first_def)

lemma first_filter: "first (filter Q xs) = nearest Q xs"
  by (induction xs) (simp_all add: nearest_def)

lemma outcome_bind: "outcome (bind_io m f) = bind_err (outcome m) (\<lambda>x. outcome (f x))"
  by (cases "snd m") (simp_all add: outcome_def bind_io_def)

lemma outcome_if: "outcome (if b then x else y) = (if b then outcome x else outcome y)"
  by simp

lemma getPAZ_outcome:
  "outcome (getPAZ env network_id station_id datetime location_id channel_id seismometer_gain) =
     bind_err (outcome (getList env []
          [(''network_id'', PStr network_id), (''station_id'', PStr station_id),
           (''datetime'', datetime)]))
       (\<lambda>station_list.
          if station_list = [] then Inr []
          else
            bind_err (getitem (hd station_list) ''resource_name'') (\<lambda>resource_name.
            bind_err (outcome (getXMLResource env resource_name [])) (\<lambda>res.
            bind_err (getattr res ''station_control_header'') (\<lambda>base_node.
            bind_err (select_nodes env base_node (fst (no_wildcards channel_id location_id))
                (snd (no_wildcards channel_id location_id))) (\<lambda>nodes.
              build_paz env nodes seismometer_gain)))))"
  by (simp add: getPAZ_def outcome_bind outcome_if split_beta cong: if_cong)

lemma getPAZ_document:
  assumes "outcome (getList env []
          [(''network_id'', PStr network_id), (''station_id'', PStr station_id),
           (''datetime'', datetime)]) = Inr (row # rows)"
    and "getitem row ''resource_name'' = Inr resource_name"
    and "outcome (getXMLResource env resource_name []) = Inr res"
    and "getattr res ''station_control_header'' = Inr base_node"
  shows "outcome (getPAZ env network_id station_id datetime location_id channel_id seismometer_gain) =
     bind_err (select_nodes env base_node (fst (no_wildcards channel_id location_id))
                (snd (no_wildcards channel_id location_id))) (\<lambda>nodes.
              build_paz env nodes seismometer_gain)"
  using assms by (simp add: getPAZ_outcome)

lemma select_nodes_filtered:
  assumes "channel_id \<noteq> [] \<or> location_id \<noteq> []"
    and "xpath_literal channel_id" and "xpath_literal location_id"
  shows "select_nodes env base_node channel_id location_id =
     bind_err (nearest is_paz (after_first (channel_match channel_id location_id) (children base_node)))
       (\<lambda>paz_node.
     bind_err (nearest (is_gain ''0'') (after_first (channel_match channel_id location_id) (children base_node)))
       (\<lambda>sensitivity_node.
     bind_err (nearest (is_gain ''1'') (after_first (channel_match channel_id location_id) (children base_node)))
       (\<lambda>seismometer_gain_node. Inr (paz_node, sensitivity_node, seismometer_gain_node))))"
proof -
  have paz: "bind_err (xpath_paz env base_node channel_id location_id) first =
      nearest is_paz (after_first (channel_match channel_id location_id) (children base_node))"
    using assms(2,3)
    by (simp add: xpath_paz_def following_sibling_eq first_filter is_paz_def [abs_def])
  have gain: "bind_err (xpath_gain env base_node channel_id location_id stage) first =
      nearest (is_gain stage) (after_first (channel_match channel_id location_id) (children base_node))"
    if "xpath_literal stage" for stage
    using assms(2,3) that
    by (simp add: xpath_gain_def following_sibling_eq first_filter is_gain_def [abs_def])
  have stages: "xpath_literal ''0''" "xpath_literal ''1''"
    by (simp_all add: xpath_literal_def)
  from assms(1) show ?thesis
    unfolding select_nodes_def paz gain [OF stages(1)] gain [OF stages(2)] by (simp cong: if_cong)
qed

lemma py_index_first: "py_index (x # xs) 0 = Inr x"
  by (simp add: py_index_def)

lemma py_index_last: "py_index (x # xs) (- 1) = Inr (last (x # xs))"
proof -
  have "nat (int (length (x # xs)) + - 1) = length (x # xs) - 1" by simp
  then have "(x # xs) ! nat (int (length (x # xs)) + - 1) = last (x # xs)"
    by (simp only: last_conv_nth [of "x # xs"] list.distinct not_False_eq_True if_True)
  then show ?thesis by (simp add: py_index_def)
qed

lemma select_nodes_unfiltered:
  "select_nodes env base_node [] [] =
     (if named base_node ''response_poles_and_zeros'' = [] \<or>
         named base_node ''channel_sensitivity_gain'' = [] then Inl AttributeError
      else Inr (hd (named base_node ''response_poles_and_zeros''),
                last (named base_node ''channel_sensitivity_gain''),
                hd (named base_node ''channel_sensitivity_gain'')))"
proof (cases "named base_node ''response_poles_and_zeros''")
  case Nil
  then show ?thesis by (simp add: select_nodes_def getattr_item_def getattr_slice_def)
next
  case p: (Cons p ps)
  show ?thesis
  proof (cases "named base_node ''channel_sensitivity_gain''")
    case Nil
    with p show ?thesis
      by (simp add: select_nodes_def getattr_item_def getattr_slice_def py_index_first)
  next
    case (Cons g gs)
    with p show ?thesis
      by (simp add: select_nodes_def getattr_item_def getattr_slice_def py_index_first py_index_last
          del: last.simps)
  qed
qed

lemma build_paz_nonempty: "build_paz env nodes flag \<noteq> Inr []"
  by (cases nodes) (auto simp: build_paz_def bind_err_Inr Let_def split: if_splits)

subsection \<open>Poles and zeros: the result\<close>

lemma bind_err_nonempty:
  "(\<And>x. f x \<noteq> Inr []) \<Longrightarrow> bind_err m f \<noteq> Inr []"
  by (cases m) auto

text \<open>
  C7.  \<^verbatim>\<open>getPAZ\<close> returns the empty dictionary exactly when the station list query
  returns no station; it then raises nothing and requests nothing more than the list.
\<close>

theorem getPAZ_empty_iff:
  "(outcome (getPAZ env network_id station_id datetime location_id channel_id seismometer_gain) = Inr [] \<longleftrightarrow>
    outcome (getList env []
          [(''network_id'', PStr network_id), (''station_id'', PStr station_id),
           (''datetime'', datetime)]) = Inr []) \<and>
   (outcome (getList env []
          [(''network_id'', PStr network_id), (''station_id'', PStr station_id),
           (''datetime'', datetime)]) = Inr [] \<longrightarrow>
    requests (getPAZ env network_id station_id datetime location_id channel_id seismometer_gain) =
    requests (getList env []
          [(''network_id'', PStr network_id), (''station_id'', PStr station_id),
           (''datetime'', datetime)]))"
proof -
  let ?list = "getList env []
          [(''network_id'', PStr network_id), (''station_id'', PStr station_id),
           (''datetime'', datetime)]"
  let ?paz = "getPAZ env network_id station_id datetime location_id channel_id seismometer_gain"
  have a: "outcome ?paz = Inr []" if "outcome ?list = Inr []"
    using that by (simp add: getPAZ_outcome)
  have b: "outcome ?list = Inr []" if "outcome ?paz = Inr []"
  proof (cases "outcome ?list")
    case (Inl e)
    with that show ?thesis by (simp add: getPAZ_outcome)
  next
    case (Inr station_list)
    show ?thesis
    proof (cases "station_list = []")
      case True
      with Inr show ?thesis by simp
    next
      case False
      have "bind_err (getitem (hd station_list) ''resource_name'') (\<lambda>resource_name.
            bind_err (outcome (getXMLResource env resource_name [])) (\<lambda>res.
            bind_err (getattr res ''station_control_header'') (\<lambda>base_node.
            bind_err (select_nodes env base_node (fst (no_wildcards channel_id location_id))
                (snd (no_wildcards channel_id location_id))) (\<lambda>nodes.
              build_paz env nodes seismometer_gain)))) \<noteq> Inr []"
        by (intro bind_err_nonempty build_paz_nonempty)
      with that Inr False show ?thesis by (simp add: getPAZ_outcome)
    qed
  qed
  have c: "requests ?paz = requests ?list" if "outcome ?list = Inr []"
    using that by (simp add: getPAZ_def bind_io_def requests_def outcome_def)
  from a b c show ?thesis by blast
qed

lemma objectify_fetch_eq:
  "objectify_fetch env url kw =
     ([remoteaddr env url kw], bind_err (urlopen env (remoteaddr env url kw)) (fromstring env))"
  by (cases "urlopen env (remoteaddr env url kw)")
    (simp_all add: objectify_fetch_def bind_io_fetch)

lemma getList_eq:
  "getList env [] kw =
     ([remoteaddr env ''/seismology/station/getList'' kw],
      bind_err (bind_err (urlopen env (remoteaddr env ''/seismology/station/getList'' kw)) (fromstring env))
        (\<lambda>root. Inr (map (\<lambda>node. elem_dict (children node) []) (children root))))"
  by (cases "bind_err (urlopen env (remoteaddr env ''/seismology/station/getList'' kw)) (fromstring env)")
    (simp_all add: getList_def objectify_fetch_eq bind_io_def)

lemma demo_getList:
  "outcome (getList (demo_client stations r) [] kw) =
     Inr (map (\<lambda>node. elem_dict (children node) []) (children stations))"
  by (simp add: getList_eq outcome_def demo_client_def remoteaddr_def)

lemma demo_getXMLResource:
  "pytype (demo_client stations r) name = StringElement \<Longrightarrow>
   outcome (getXMLResource (demo_client stations r) name kw) = Inr r"
  by (simp add: getXMLResource_def str_add_elem_def objectify_fetch_eq outcome_def)
    (simp add: demo_client_def remoteaddr_def)

theorem getPAZ_empty_iff_witness:
  "outcome (getPAZ (demo_client demo_no_stations demo_resource) ''BW'' ''MANZ'' (PStr ''20090707'')
     [] ''EHZ'' False) = Inr []"
  using getPAZ_empty_iff [of "demo_client demo_no_stations demo_resource" "''BW''" "''MANZ''"
      "PStr ''20090707''" "[]" "''EHZ''" False]
  by (simp add: demo_getList demo_no_stations_def)

subsection \<open>Poles and zeros: the selection of the nodes\<close>

lemma demo_station_row:
  "outcome (getList (demo_client demo_stations r) [] kw) =
     Inr ([(''resource_name'', leaf ''resource_name'' ''BW_MANZ.xml'')] # [])"
  by (simp add: demo_getList demo_stations_def leaf_def)

lemma demo_resource_name:
  "getitem [(''resource_name'', leaf ''resource_name'' ''BW_MANZ.xml'')] ''resource_name'' =
     Inr (leaf ''resource_name'' ''BW_MANZ.xml'')"
  by (simp add: getitem_def)

lemma demo_resource_header: "getattr demo_resource ''station_control_header'' = Inr demo_header"
  by (simp add: getattr_def named_def demo_resource_def demo_header_def)

lemma demo_children:
  "children demo_header =
     [demo_channel [] ''EHZ'', demo_paz_node, demo_gain ''1'' ''400'', demo_gain ''0'' ''1000'',
      demo_channel [] ''EHN'', demo_paz_node2, demo_gain ''0'' ''2000'']"
  by (simp add: demo_header_def)

lemma demo_tags [simp]:
  "tag (demo_channel l c) = ''channel_identifier''"
  "tag (demo_gain st g) = ''channel_sensitivity_gain''"
  "tag demo_paz_node = ''response_poles_and_zeros''"
  "tag demo_paz_node2 = ''response_poles_and_zeros''"
  by (simp_all add: demo_channel_def demo_gain_def demo_paz_node_def demo_paz_node2_def)

lemma demo_channel_match [simp]:
  "channel_match c l (demo_channel l' c') \<longleftrightarrow> c = c' \<and> l = l'"
  by (auto simp: channel_match_def field_eq_def demo_channel_def leaf_def)

lemma demo_not_channel [simp]:
  "\<not> channel_match c l (demo_gain st g)" "\<not> channel_match c l demo_paz_node"
  "\<not> channel_match c l demo_paz_node2"
  by (simp_all add: channel_match_def)

lemma demo_is_gain [simp]:
  "is_gain st (demo_gain st' g) \<longleftrightarrow> st = st'"
  "\<not> is_gain st (demo_channel l c)" "\<not> is_gain st demo_paz_node" "\<not> is_gain st demo_paz_node2"
  by (auto simp: is_gain_def field_eq_def demo_gain_def leaf_def)

lemma demo_is_paz [simp]:
  "is_paz demo_paz_node" "is_paz demo_paz_node2" "\<not> is_paz (demo_gain st g)"
  "\<not> is_paz (demo_channel l c)"
  by (simp_all add: is_paz_def)

lemma demo_resource_name_type:
  "pytype (demo_client stations r) (leaf ''resource_name'' ''BW_MANZ.xml'') = StringElement"
  by (simp add: demo_client_def demo_pytype_def leaf_def)

lemma demo_build_paz:
  "build_paz (demo_client stations r) (demo_paz_node, demo_gain st0 g0, demo_gain st1 g1) flag =
     Inr ([(''poles'', Items [PComplex (Complex 1 3), PComplex (Complex 2 4)]),
           (''zeros'', Items [PComplex (Complex 0 0)]),
           (''gain'', Elem (leaf ''A0_normalization_factor'' ''1'')),
           (''sensitivity'', Elem (leaf ''sensitivity_gain'' g0))] @
          (if flag then [(''seismometer_gain'', Elem (leaf ''sensitivity_gain'' g1))] else []))"
  by (simp add: build_paz_def complex_list_def getattr_def getattr_slice_def named_def
      demo_paz_node_def demo_gain_def leaf_def demo_client_def demo_pytype_def
      elem_plus_times_j_def complex_eq_iff)

text \<open>
  C1.  When both filters are empty after the wildcards are dropped, \<^verbatim>\<open>getPAZ\<close> takes
  the first \<^verbatim>\<open>response_poles_and_zeros\<close> child of the station control header as the
  poles-and-zeros node, the last \<^verbatim>\<open>channel_sensitivity_gain\<close> child as the sensitivity
  node and the first one as the seismometer-gain node, and builds its result from
  them; a header without one of the two kinds of children is an \<^verbatim>\<open>AttributeError\<close>.
\<close>

theorem getPAZ_unfiltered_selection:
  assumes "outcome (getList env []
          [(''network_id'', PStr network_id), (''station_id'', PStr station_id),
           (''datetime'', datetime)]) = Inr (row # rows)"
    and "getitem row ''resource_name'' = Inr resource_name"
    and "outcome (getXMLResource env resource_name []) = Inr res"
    and "getattr res ''station_control_header'' = Inr base_node"
    and "no_wildcards channel_id location_id = ([], [])"
  shows "(named base_node ''response_poles_and_zeros'' \<noteq> [] \<and>
          named base_node ''channel_sensitivity_gain'' \<noteq> [] \<longrightarrow>
        select_nodes env base_node [] [] =
          Inr (hd (named base_node ''response_poles_and_zeros''),
               last (named base_node ''channel_sensitivity_gain''),
               hd (named base_node ''channel_sensitivity_gain'')) \<and>
        outcome (getPAZ env network_id station_id datetime location_id channel_id seismometer_gain) =
          build_paz env
            (hd (named base_node ''response_poles_and_zeros''),
             last (named base_node ''channel_sensitivity_gain''),
             hd (named base_node ''channel_sensitivity_gain'')) seismometer_gain) \<and>
     (named base_node ''response_poles_and_zeros'' = [] \<or>
          named base_node ''channel_sensitivity_gain'' = [] \<longrightarrow>
        outcome (getPAZ env network_id station_id datetime location_id channel_id seismometer_gain) =
          Inl AttributeError)"
  unfolding getPAZ_document [OF assms(1-4)] assms(5) fst_conv snd_conv select_nodes_unfiltered
  by simp

theorem getPAZ_unfiltered_selection_witness:
  "select_nodes (demo_client demo_stations demo_resource) demo_header [] [] =
     Inr (demo_paz_node, demo_gain ''0'' ''2000'', demo_gain ''1'' ''400'') \<and>
   outcome (getPAZ (demo_client demo_stations demo_resource) ''BW'' ''MANZ'' (PStr ''20090707'')
     [] ''*'' True) =
     Inr [(''poles'', Items [PComplex (Complex 1 3), PComplex (Complex 2 4)]),
          (''zeros'', Items [PComplex (Complex 0 0)]),
          (''gain'', Elem (leaf ''A0_normalization_factor'' ''1'')),
          (''sensitivity'', Elem (leaf ''sensitivity_gain'' ''2000'')),
          (''seismometer_gain'', Elem (leaf ''sensitivity_gain'' ''400''))]"
proof -
  have h3: "outcome (getXMLResource (demo_client demo_stations demo_resource)
      (leaf ''resource_name'' ''BW_MANZ.xml'') []) = Inr demo_resource"
    by (rule demo_getXMLResource [OF demo_resource_name_type])
  have h5: "no_wildcards ''*'' [] = ([], [])" by (simp add: no_wildcards_def)
  have paz: "named demo_header ''response_poles_and_zeros'' = [demo_paz_node, demo_paz_node2]"
    by (simp add: named_def demo_children)
  have gains: "named demo_header ''channel_sensitivity_gain'' =
      [demo_gain ''1'' ''400'', demo_gain ''0'' ''1000'', demo_gain ''0'' ''2000'']"
    by (simp add: named_def demo_children)
  from getPAZ_unfiltered_selection [OF demo_station_row demo_resource_name h3
      demo_resource_header h5, where network_id = "''BW''" and station_id = "''MANZ''"
      and datetime = "PStr ''20090707''" and seismometer_gain = True]
  show ?thesis
    by (simp add: paz gains demo_build_paz)
qed

subsection \<open>Poles and zeros: filters pasted into the XPath text\<close>

text \<open>
  For filters that hold no apostrophe, the three nodes are the nearest
  \<^verbatim>\<open>response_poles_and_zeros\<close>, the nearest \<^verbatim>\<open>channel_sensitivity_gain\<close> of stage \<^verbatim>\<open>0\<close>
  and the nearest one of stage \<^verbatim>\<open>1\<close> among the siblings that follow the first
  \<^verbatim>\<open>channel_identifier\<close> child whose channel and location fields equal the filters;
  when one of them is missing, or no child matches, the call raises \<^verbatim>\<open>IndexError\<close>.
\<close>

lemma getPAZ_literal_filter_selection:
  assumes "outcome (getList env []
          [(''network_id'', PStr network_id), (''station_id'', PStr station_id),
           (''datetime'', datetime)]) = Inr (row # rows)"
    and "getitem row ''resource_name'' = Inr resource_name"
    and "outcome (getXMLResource env resource_name []) = Inr res"
    and "getattr res ''station_control_header'' = Inr base_node"
    and "no_wildcards channel_id location_id = (c, l)"
    and "c \<noteq> [] \<or> l \<noteq> []"
    and "xpath_literal c" and "xpath_literal l"
    and "following = after_first (channel_match c l) (children base_node)"
  shows "select_nodes env base_node c l =
       (case (find is_paz following, find (is_gain ''0'') following, find (is_gain ''1'') following) of
          (Some paz_node, Some sensitivity_node, Some seismometer_gain_node) \<Rightarrow>
            Inr (paz_node, sensitivity_node, seismometer_gain_node)
        | _ \<Rightarrow> Inl IndexError) \<and>
     outcome (getPAZ env network_id station_id datetime location_id channel_id seismometer_gain) =
       (case (find is_paz following, find (is_gain ''0'') following, find (is_gain ''1'') following) of
          (Some paz_node, Some sensitivity_node, Some seismometer_gain_node) \<Rightarrow>
            build_paz env (paz_node, sensitivity_node, seismometer_gain_node) seismometer_gain
        | _ \<Rightarrow> Inl IndexError)"
  unfolding getPAZ_document [OF assms(1-4)] assms(5) fst_conv snd_conv
    select_nodes_filtered [OF assms(6-8)] assms(9) [symmetric]
  by (simp add: nearest_def split: option.splits)

lemma getPAZ_literal_filter_example:
  "outcome (getPAZ (demo_client demo_stations demo_resource) ''BW'' ''MANZ'' (PStr ''20090707'')
     [] ''EHZ'' False) =
     Inr [(''poles'', Items [PComplex (Complex 1 3), PComplex (Complex 2 4)]),
          (''zeros'', Items [PComplex (Complex 0 0)]),
          (''gain'', Elem (leaf ''A0_normalization_factor'' ''1'')),
          (''sensitivity'', Elem (leaf ''sensitivity_gain'' ''1000''))] \<and>
   outcome (getPAZ (demo_client demo_stations demo_resource) ''BW'' ''MANZ'' (PStr ''20090707'')
     [] ''EHN'' False) = Inl IndexError"
proof -
  have h3: "outcome (getXMLResource (demo_client demo_stations demo_resource)
      (leaf ''resource_name'' ''BW_MANZ.xml'') []) = Inr demo_resource"
    by (rule demo_getXMLResource [OF demo_resource_name_type])
  have z5: "no_wildcards ''EHZ'' [] = (''EHZ'', [])" and n5: "no_wildcards ''EHN'' [] = (''EHN'', [])"
    by (simp_all add: no_wildcards_def)
  have z6: "''EHZ'' \<noteq> [] \<or> ([] :: string) \<noteq> []" and n6: "''EHN'' \<noteq> [] \<or> ([] :: string) \<noteq> []"
    by simp_all
  have lit: "xpath_literal ''EHZ''" "xpath_literal ''EHN''" "xpath_literal []"
    by (simp_all add: xpath_literal_def)
  have z9: "[demo_paz_node, demo_gain ''1'' ''400'', demo_gain ''0'' ''1000'',
      demo_channel [] ''EHN'', demo_paz_node2, demo_gain ''0'' ''2000''] =
      after_first (channel_match ''EHZ'' []) (children demo_header)"
    and n9: "[demo_paz_node2, demo_gain ''0'' ''2000''] =
      after_first (channel_match ''EHN'' []) (children demo_header)"
    by (simp_all add: demo_children after_first_def)
  from getPAZ_literal_filter_selection [OF demo_station_row demo_resource_name h3
      demo_resource_header z5 z6 lit(1) lit(3) z9, where network_id = "''BW''"
      and station_id = "''MANZ''" and datetime = "PStr ''20090707''" and seismometer_gain = False]
    getPAZ_literal_filter_selection [OF demo_station_row demo_resource_name h3
      demo_resource_header n5 n6 lit(2) lit(3) n9, where network_id = "''BW''"
      and station_id = "''MANZ''" and datetime = "PStr ''20090707''" and seismometer_gain = False]
  show ?thesis
    by (simp add: demo_build_paz)
qed





end
